theory Spec2Isabelle
  imports Complex_Main
begin

section \<open>Values and errors of the Python source\<close>

text \<open>
  The module \<open>OpticalObject.py\<close> computes with Python numbers. They are modelled as
  \<^typ>\<open>real\<close>: the arithmetic of the model is exact. Python computes line 194 in IEEE
  doubles, where a product or a square can overflow (\<open>l**2\<close> raises \<open>OverflowError\<close>,
  a product becomes \<open>inf\<close>), a sum can be \<open>nan\<close>, and a rounded difference or sum can
  be zero or change sign where the exact one does not. None of this is represented, so
  the theorems use the model only where the doubles agree with what they state: on the
  vacuum entry, where every intermediate value is 0 or 1; on the six entries of the
  table at 580, where the function returns a number in doubles as it does in exact
  arithmetic; on the coefficients \<open>[1, 0, 0, 336400, 0, 0]\<close> at 580, where the first
  denominator is exactly 0; and for the way \<open>onChanged\<close> passes coefficients to the
  dispersion function and stores what it returns or lets its exception through.
  No theorem is stated about the number the function returns on arbitrary
  coefficients, nor about the set of coefficients on which it raises.

  What a lens stores in its \<open>Sellmeier\<close> property, and what the material
  table maps a name to, is either Python's \<open>None\<close> or a sequence of numbers; a tuple
  and a list are both a \<^typ>\<open>real list\<close> here, since the source only unpacks them.
\<close>

datatype pyvalue = PyNone | PySeq "real list"

text \<open>
  The exceptions the modelled code can raise. \<open>ValueError\<close> occurs with two causes
  that the claims tell apart: unpacking a sequence of the wrong length, and
  \<open>math.sqrt\<close> of a negative number (message \<open>math domain error\<close>).
\<close>

datatype error =
    TypeError
  | ValueError_unpack
  | ValueError_math_domain
  | ZeroDivisionError
  | KeyError
  | AttributeError

text \<open>
  Python's \<open>a / b\<close> raises on a zero divisor; \<open>math.sqrt\<close> raises below zero. Both
  tests are made on exact values here, on rounded doubles in Python.
\<close>

definition py_truediv :: "real \<Rightarrow> real \<Rightarrow> error + real" where
  "py_truediv a b = (if b = 0 then Inl ZeroDivisionError else Inr (a / b))"

definition math_sqrt :: "real \<Rightarrow> error + real" where
  "math_sqrt x = (if x < 0 then Inl ValueError_math_domain else Inr (sqrt x))"

text \<open>
  \<open>b1, b2, b3, c1, c2, c3 = sellmeier\<close>: \<open>None\<close> is not iterable (\<open>TypeError\<close>),
  a sequence of any length but six does not unpack (\<open>ValueError\<close>).
\<close>

definition unpack6 :: "pyvalue \<Rightarrow> error + (real \<times> real \<times> real \<times> real \<times> real \<times> real)" where
  "unpack6 v =
     (case v of
        PyNone \<Rightarrow> Inl TypeError
      | PySeq xs \<Rightarrow>
          (case xs of
             [b1, b2, b3, c1, c2, c3] \<Rightarrow> Inr (b1, b2, b3, c1, c2, c3)
           | _ \<Rightarrow> Inl ValueError_unpack))"

section \<open>The dispersion function\<close>

text \<open>
  \<^verbatim>\<open>
  def refraction_index_from_sellmeier(wavelength, sellmeier):
      b1, b2, b3, c1, c2, c3 = sellmeier
      l = wavelength
      n = math.sqrt(1 + b1*l**2/(l**2 - c1) + b2*l**2/(l**2 - c2) + b3*l**2/(l**2 - c3))
      return n
  \<close>
  The three quotients are evaluated from left to right; the first zero divisor raises.
\<close>

definition refraction_index_from_sellmeier :: "real \<Rightarrow> pyvalue \<Rightarrow> error + real" where
  "refraction_index_from_sellmeier wavelength sellmeier =
     (case unpack6 sellmeier of
        Inl e \<Rightarrow> Inl e
      | Inr (b1, b2, b3, c1, c2, c3) \<Rightarrow>
          (let l = wavelength in
           case py_truediv (b1 * l\<^sup>2) (l\<^sup>2 - c1) of
             Inl e \<Rightarrow> Inl e
           | Inr t1 \<Rightarrow>
               (case py_truediv (b2 * l\<^sup>2) (l\<^sup>2 - c2) of
                  Inl e \<Rightarrow> Inl e
                | Inr t2 \<Rightarrow>
                    (case py_truediv (b3 * l\<^sup>2) (l\<^sup>2 - c3) of
                       Inl e \<Rightarrow> Inl e
                     | Inr t3 \<Rightarrow> math_sqrt (1 + t1 + t2 + t3)))))"

section \<open>The material table\<close>

text \<open>
  \<open>LensWorker.getMaterials\<close> returns a dictionary literal; it is an association list
  in the order of the source, read with \<^const>\<open>map_of\<close>. The entry \<open>'?'\<close> maps to
  \<open>None\<close>. Subscripting the dictionary with a missing key raises \<open>KeyError\<close>.
\<close>

definition getMaterials :: "(string \<times> pyvalue) list" where
  "getMaterials =
     [(''?'', PyNone),
      (''Vacuum'', PySeq [0, 0, 0, 0, 0, 0]),
      (''Air'', PySeq [4.915889 / 10 ^ 4, 5.368273 / 10 ^ 5, - 1.949567 / 10 ^ 4,
                      4352.140, 17470.01, 4258444000]),
      (''Quartz'', PySeq [0.6961663, 0.4079426, 0.8974794,
                         4679.14826, 13512.0631, 97934002.5]),
      (''PMMA (plexiglass)'', PySeq [1.1819, 0, 0, 11313, 0, 0]),
      (''Window glass'', PySeq [1.03961212, 0.231792344, 1.01046945,
                               6000.69867, 20017.9144, 103560653]),
      (''Polycarbonate'', PySeq [1.4182, 0, 0, 21304, 0, 0])]"

definition getitem :: "(string \<times> pyvalue) list \<Rightarrow> string \<Rightarrow> error + pyvalue" where
  "getitem d k = (case map_of d k of None \<Rightarrow> Inl KeyError | Some v \<Rightarrow> Inr v)"

section \<open>The lens worker and its feature object\<close>

text \<open>
  \<open>self\<close> of \<open>LensWorker\<close> carries the flag \<open>update\<close>; the feature object \<open>fp\<close>
  carries the three properties. \<open>Sellmeier fp = None\<close> says that \<open>fp\<close> has no
  attribute \<open>Sellmeier\<close> (\<open>hasattr(fp, 'Sellmeier')\<close> is false); \<open>Some v\<close> says the
  attribute exists and holds \<open>v\<close>. An assignment to a property stores the value given.
\<close>

record LensWorker =
  update :: bool

record FeaturePython =
  Material :: string
  Sellmeier :: "pyvalue option"
  RefractionIndex :: real

text \<open>Reading \<open>fp.Sellmeier\<close>.\<close>

definition getattr_Sellmeier :: "FeaturePython \<Rightarrow> error + pyvalue" where
  "getattr_Sellmeier fp = (case Sellmeier fp of None \<Rightarrow> Inl AttributeError | Some v \<Rightarrow> Inr v)"

text \<open>
  The three \<open>if prop == ...\<close> blocks of \<open>onChanged\<close>. Each returns the feature
  object as the block leaves it, or, when a statement raises, the exception together
  with the feature object as it is at that moment.
  \<^verbatim>\<open>
  if prop == 'Material':
      sellmeier = self.getMaterials()[fp.Material]
      fp.Sellmeier = sellmeier
      fp.RefractionIndex = refraction_index_from_sellmeier(wavelength=580, sellmeier=fp.Sellmeier)
  \<close>
\<close>

definition block_Material :: "FeaturePython \<Rightarrow> string \<Rightarrow> (error \<times> FeaturePython) + FeaturePython" where
  "block_Material fp prop =
     (if prop = ''Material'' then
        (case getitem getMaterials (Material fp) of
           Inl e \<Rightarrow> Inl (e, fp)
         | Inr sellmeier \<Rightarrow>
             (let fp1 = fp\<lparr>Sellmeier := Some sellmeier\<rparr> in
              case getattr_Sellmeier fp1 of
                Inl e \<Rightarrow> Inl (e, fp1)
              | Inr s \<Rightarrow>
                  (case refraction_index_from_sellmeier 580 s of
                     Inl e \<Rightarrow> Inl (e, fp1)
                   | Inr n \<Rightarrow> Inr (fp1\<lparr>RefractionIndex := n\<rparr>))))
      else Inr fp)"

text \<open>
  \<^verbatim>\<open>
  if prop == 'Sellmeier':
      fp.RefractionIndex = refraction_index_from_sellmeier(wavelength=580, sellmeier=fp.Sellmeier)
  \<close>
\<close>

definition block_Sellmeier :: "FeaturePython \<Rightarrow> string \<Rightarrow> (error \<times> FeaturePython) + FeaturePython" where
  "block_Sellmeier fp prop =
     (if prop = ''Sellmeier'' then
        (case getattr_Sellmeier fp of
           Inl e \<Rightarrow> Inl (e, fp)
         | Inr s \<Rightarrow>
             (case refraction_index_from_sellmeier 580 s of
                Inl e \<Rightarrow> Inl (e, fp)
              | Inr n \<Rightarrow> Inr (fp\<lparr>RefractionIndex := n\<rparr>)))
      else Inr fp)"

text \<open>
  \<^verbatim>\<open>
  if prop == 'RefractionIndex':
      fp.Material = '?'
      fp.Sellmeier = []
  \<close>
\<close>

definition block_RefractionIndex :: "FeaturePython \<Rightarrow> string \<Rightarrow> FeaturePython" where
  "block_RefractionIndex fp prop =
     (if prop = ''RefractionIndex'' then fp\<lparr>Material := ''?'', Sellmeier := Some (PySeq [])\<rparr>
      else fp)"

text \<open>
  \<^verbatim>\<open>
  def onChanged(self, fp, prop):
      if not self.update: return
      self.update = False
      if not hasattr(fp, 'Sellmeier'): return
      ... the three blocks ...
      self.update = True
  \<close>
  The result is the exception that leaves the call, if any, and the two objects as the
  call leaves them. The source has no \<open>try\<close>: an exception raised in a block ends the
  call at once, after \<open>self.update = False\<close> and before \<open>self.update = True\<close>.
  The writes of the blocks happen while \<open>update\<close> is false, so a notification that
  the host sends for them takes the first \<open>return\<close>.
\<close>

definition onChanged ::
    "LensWorker \<Rightarrow> FeaturePython \<Rightarrow> string \<Rightarrow> error option \<times> LensWorker \<times> FeaturePython" where
  "onChanged self fp prop =
     (if \<not> update self then (None, self, fp)
      else
        (let self1 = self\<lparr>update := False\<rparr> in
         if Sellmeier fp = None then (None, self1, fp)
         else
           (case block_Material fp prop of
              Inl (e, fp1) \<Rightarrow> (Some e, self1, fp1)
            | Inr fp1 \<Rightarrow>
                (case block_Sellmeier fp1 prop of
                   Inl (e, fp2) \<Rightarrow> (Some e, self1, fp2)
                 | Inr fp2 \<Rightarrow>
                     (None, self1\<lparr>update := True\<rparr>, block_RefractionIndex fp2 prop)))))"

section \<open>Notifications delivered one after another\<close>

text \<open>
  The host changes a property of \<open>fp\<close> and then calls \<open>onChanged(fp, prop)\<close> with
  the name of that property, one notification at a time. An event is the write the
  host performs together with the property name; the objects are handed on as each
  call leaves them, also when the call ended with an exception.
\<close>

fun notify_all ::
    "LensWorker \<Rightarrow> FeaturePython \<Rightarrow> ((FeaturePython \<Rightarrow> FeaturePython) \<times> string) list
       \<Rightarrow> LensWorker \<times> FeaturePython" where
  "notify_all self fp [] = (self, fp)"
| "notify_all self fp ((w, prop) # es) =
     (case onChanged self (w fp) prop of (_, self', fp') \<Rightarrow> notify_all self' fp' es)"

section \<open>Properties of the dispersion function\<close>

text \<open>On six coefficients the function either divides by zero or takes the root.\<close>

lemma refraction_index_six:
  "refraction_index_from_sellmeier l (PySeq [b1, b2, b3, c1, c2, c3]) =
     (if l\<^sup>2 - c1 = 0 \<or> l\<^sup>2 - c2 = 0 \<or> l\<^sup>2 - c3 = 0 then Inl ZeroDivisionError
      else math_sqrt (1 + b1 * l\<^sup>2 / (l\<^sup>2 - c1) + b2 * l\<^sup>2 / (l\<^sup>2 - c2)
                        + b3 * l\<^sup>2 / (l\<^sup>2 - c3)))"
  by (simp add: refraction_index_from_sellmeier_def unpack6_def py_truediv_def)

lemma refraction_index_None: "refraction_index_from_sellmeier l PyNone = Inl TypeError"
  by (simp add: refraction_index_from_sellmeier_def unpack6_def)

lemma refraction_index_empty: "refraction_index_from_sellmeier l (PySeq []) = Inl ValueError_unpack"
  by (simp add: refraction_index_from_sellmeier_def unpack6_def)

text \<open>
  Claim C4. The table maps \<open>'Vacuum'\<close> to six zeros, and on six zeros at wavelength
  580 the function returns exactly 1.
\<close>

theorem vacuum_index_is_one:
  "getitem getMaterials ''Vacuum'' = Inr (PySeq [0, 0, 0, 0, 0, 0]) \<and>
   refraction_index_from_sellmeier 580 (PySeq [0, 0, 0, 0, 0, 0]) = Inr 1"
  by (simp add: getitem_def getMaterials_def refraction_index_six math_sqrt_def)

section \<open>Properties of \<open>onChanged\<close>\<close>

text \<open>With the flag cleared the call takes the first \<open>return\<close>.\<close>

lemma onChanged_locked: "\<not> update self \<Longrightarrow> onChanged self fp prop = (None, self, fp)"
  by (simp add: onChanged_def)

lemma notify_all_locked:
  "\<not> update self \<Longrightarrow> notify_all self fp es = (self, fold (\<lambda>(w, prop). w) es fp)"
  by (induction es arbitrary: fp) (auto simp: onChanged_locked)

text \<open>Without the attribute \<open>Sellmeier\<close> the call takes the second \<open>return\<close>.\<close>

lemma onChanged_no_Sellmeier:
  "update self \<Longrightarrow> Sellmeier fp = None \<Longrightarrow>
     onChanged self fp prop = (None, self\<lparr>update := False\<rparr>, fp)"
  by (simp add: onChanged_def)

text \<open>The three notifications on an object that has the attribute, flag set.\<close>

lemma onChanged_Material:
  assumes "update self" and "Sellmeier fp = Some v"
  shows "onChanged self fp ''Material'' =
     (case getitem getMaterials (Material fp) of
        Inl e \<Rightarrow> (Some e, self\<lparr>update := False\<rparr>, fp)
      | Inr s \<Rightarrow>
          (case refraction_index_from_sellmeier 580 s of
             Inl e \<Rightarrow> (Some e, self\<lparr>update := False\<rparr>, fp\<lparr>Sellmeier := Some s\<rparr>)
           | Inr n \<Rightarrow> (None, self, fp\<lparr>Sellmeier := Some s, RefractionIndex := n\<rparr>)))"
  using assms
  by (simp add: onChanged_def block_Material_def block_Sellmeier_def block_RefractionIndex_def
      getattr_Sellmeier_def split: sum.splits)

lemma onChanged_Sellmeier:
  assumes "update self" and "Sellmeier fp = Some v"
  shows "onChanged self fp ''Sellmeier'' =
     (case refraction_index_from_sellmeier 580 v of
        Inl e \<Rightarrow> (Some e, self\<lparr>update := False\<rparr>, fp)
      | Inr n \<Rightarrow> (None, self, fp\<lparr>RefractionIndex := n\<rparr>))"
  using assms
  by (simp add: onChanged_def block_Material_def block_Sellmeier_def block_RefractionIndex_def
      getattr_Sellmeier_def split: sum.splits)

lemma onChanged_RefractionIndex:
  assumes "update self" and "Sellmeier fp = Some v"
  shows "onChanged self fp ''RefractionIndex'' =
           (None, self, fp\<lparr>Material := ''?'', Sellmeier := Some (PySeq [])\<rparr>)"
  using assms
  by (simp add: onChanged_def block_Material_def block_Sellmeier_def block_RefractionIndex_def)

text \<open>
  Whenever the dispersion function raises for the coefficients stored in \<open>fp\<close>, a
  \<open>Sellmeier\<close> notification ends with that exception and with the flag cleared.
\<close>

lemma onChanged_Sellmeier_raises:
  assumes "update self" and "Sellmeier fp = Some v"
    and "refraction_index_from_sellmeier 580 v = Inl e"
  shows "onChanged self fp ''Sellmeier'' = (Some e, self\<lparr>update := False\<rparr>, fp)"
  using assms by (simp add: onChanged_Sellmeier)

text \<open>
  Whenever \<open>Material\<close> is \<open>'?'\<close>, a \<open>Material\<close> notification looks \<open>None\<close> up, stores
  it and hands it to the dispersion function, which raises \<open>TypeError\<close>.
\<close>

lemma onChanged_Material_sentinel:
  assumes "update self" and "Sellmeier fp = Some v" and "Material fp = ''?''"
  shows "onChanged self fp ''Material'' =
           (Some TypeError, self\<lparr>update := False\<rparr>, fp\<lparr>Sellmeier := Some PyNone\<rparr>)"
  using assms
  by (simp add: onChanged_Material getitem_def getMaterials_def refraction_index_None)

text \<open>
  Claim C6. A notification that arrives while the flag \<open>update\<close> is cleared (the state
  Propagating) is ignored: the call returns without an exception and leaves the worker
  and every property of the feature object as they were.
\<close>

theorem onChanged_ignored_while_propagating:
  assumes "\<not> update self"
  shows "onChanged self fp prop = (None, self, fp)"
  using assms by (rule onChanged_locked)

theorem onChanged_ignored_while_propagating_witness:
  "\<not> update \<lparr>update = False\<rparr> \<and>
   onChanged \<lparr>update = False\<rparr>
     \<lparr>Material = ''Quartz'', Sellmeier = Some (PySeq [1, 0, 0, 336400, 0, 0]), RefractionIndex = 1\<rparr>
     ''Sellmeier''
   = (None, \<lparr>update = False\<rparr>,
      \<lparr>Material = ''Quartz'', Sellmeier = Some (PySeq [1, 0, 0, 336400, 0, 0]), RefractionIndex = 1\<rparr>)"
  using onChanged_ignored_while_propagating [of "\<lparr>update = False\<rparr>"
      "\<lparr>Material = ''Quartz'', Sellmeier = Some (PySeq [1, 0, 0, 336400, 0, 0]), RefractionIndex = 1\<rparr>"
      "''Sellmeier''"]
  by simp

text \<open>
  Claim C7. With the flag set, a \<open>RefractionIndex\<close> notification on a feature object
  that has its \<open>Sellmeier\<close> property sets \<open>Material\<close> to \<open>'?'\<close> and \<open>Sellmeier\<close> to the
  empty list, whatever the three properties held before; it raises nothing, leaves
  \<open>RefractionIndex\<close> alone and ends with the flag set again.
\<close>

theorem refraction_index_edit_sets_sentinel:
  assumes "update self" and "Sellmeier fp = Some v"
  shows "onChanged self fp ''RefractionIndex'' =
           (None, self, fp\<lparr>Material := ''?'', Sellmeier := Some (PySeq [])\<rparr>)"
  using assms by (rule onChanged_RefractionIndex)

theorem refraction_index_edit_sets_sentinel_witness:
  "update \<lparr>update = True\<rparr> \<and>
   Sellmeier \<lparr>Material = ''Quartz'', Sellmeier = Some (PySeq [1, 2, 3]), RefractionIndex = 7\<rparr>
     = Some (PySeq [1, 2, 3]) \<and>
   onChanged \<lparr>update = True\<rparr>
     \<lparr>Material = ''Quartz'', Sellmeier = Some (PySeq [1, 2, 3]), RefractionIndex = 7\<rparr>
     ''RefractionIndex''
   = (None, \<lparr>update = True\<rparr>,
      \<lparr>Material = ''?'', Sellmeier = Some (PySeq []), RefractionIndex = 7\<rparr>)"
  using refraction_index_edit_sets_sentinel [of "\<lparr>update = True\<rparr>"
      "\<lparr>Material = ''Quartz'', Sellmeier = Some (PySeq [1, 2, 3]), RefractionIndex = 7\<rparr>"
      "PySeq [1, 2, 3]"]
  by simp

text \<open>
  Claim C8. With the flag set, a \<open>Sellmeier\<close> notification applies the dispersion
  function at 580 to the coefficients stored in \<open>fp\<close> and writes the number it returns
  to \<open>RefractionIndex\<close>; \<open>Material\<close> is the same before and after, also when the
  dispersion function raises.
\<close>

theorem sellmeier_edit_recomputes_index:
  assumes "update self" and "Sellmeier fp = Some v"
  shows "Material (snd (snd (onChanged self fp ''Sellmeier''))) = Material fp \<and>
         onChanged self fp ''Sellmeier'' =
           (case refraction_index_from_sellmeier 580 v of
              Inr n \<Rightarrow> (None, self, fp\<lparr>RefractionIndex := n\<rparr>)
            | Inl e \<Rightarrow> (Some e, self\<lparr>update := False\<rparr>, fp))"
  using assms by (simp add: onChanged_Sellmeier split: sum.splits)

theorem sellmeier_edit_recomputes_index_witness:
  "update \<lparr>update = True\<rparr> \<and>
   Sellmeier \<lparr>Material = ''Quartz'', Sellmeier = Some (PySeq [3, 0, 0, 0, 0, 0]), RefractionIndex = 1\<rparr>
     = Some (PySeq [3, 0, 0, 0, 0, 0]) \<and>
   refraction_index_from_sellmeier 580 (PySeq [3, 0, 0, 0, 0, 0]) = Inr 2 \<and>
   onChanged \<lparr>update = True\<rparr>
     \<lparr>Material = ''Quartz'', Sellmeier = Some (PySeq [3, 0, 0, 0, 0, 0]), RefractionIndex = 1\<rparr>
     ''Sellmeier''
   = (None, \<lparr>update = True\<rparr>,
      \<lparr>Material = ''Quartz'', Sellmeier = Some (PySeq [3, 0, 0, 0, 0, 0]), RefractionIndex = 2\<rparr>)"
  using sellmeier_edit_recomputes_index [of "\<lparr>update = True\<rparr>"
      "\<lparr>Material = ''Quartz'', Sellmeier = Some (PySeq [3, 0, 0, 0, 0, 0]), RefractionIndex = 1\<rparr>"
      "PySeq [3, 0, 0, 0, 0, 0]"]
  by (simp add: refraction_index_six math_sqrt_def)

text \<open>
  The names of the table other than \<open>'?'\<close>, and the dispersion function on each entry:
  at 580 no denominator is zero and no radicand is negative.
\<close>

lemma catalog_names:
  assumes "m \<in> set (map fst getMaterials)" and "m \<noteq> ''?''"
  shows "m = ''Vacuum'' \<or> m = ''Air'' \<or> m = ''Quartz'' \<or> m = ''PMMA (plexiglass)'' \<or>
         m = ''Window glass'' \<or> m = ''Polycarbonate''"
  using assms by (auto simp: getMaterials_def)

lemma entry_Vacuum:
  "\<exists>cs n. getitem getMaterials ''Vacuum'' = Inr (PySeq cs) \<and>
          refraction_index_from_sellmeier 580 (PySeq cs) = Inr n"
  by (simp add: getitem_def getMaterials_def refraction_index_six math_sqrt_def)

lemma entry_Air:
  "\<exists>cs n. getitem getMaterials ''Air'' = Inr (PySeq cs) \<and>
          refraction_index_from_sellmeier 580 (PySeq cs) = Inr n"
  by (simp add: getitem_def getMaterials_def refraction_index_six math_sqrt_def)

lemma entry_Quartz:
  "\<exists>cs n. getitem getMaterials ''Quartz'' = Inr (PySeq cs) \<and>
          refraction_index_from_sellmeier 580 (PySeq cs) = Inr n"
  by (simp add: getitem_def getMaterials_def refraction_index_six math_sqrt_def)

lemma entry_PMMA:
  "\<exists>cs n. getitem getMaterials ''PMMA (plexiglass)'' = Inr (PySeq cs) \<and>
          refraction_index_from_sellmeier 580 (PySeq cs) = Inr n"
  by (simp add: getitem_def getMaterials_def refraction_index_six math_sqrt_def)

lemma entry_Window_glass:
  "\<exists>cs n. getitem getMaterials ''Window glass'' = Inr (PySeq cs) \<and>
          refraction_index_from_sellmeier 580 (PySeq cs) = Inr n"
  by (simp add: getitem_def getMaterials_def refraction_index_six math_sqrt_def)

lemma entry_Polycarbonate:
  "\<exists>cs n. getitem getMaterials ''Polycarbonate'' = Inr (PySeq cs) \<and>
          refraction_index_from_sellmeier 580 (PySeq cs) = Inr n"
  by (simp add: getitem_def getMaterials_def refraction_index_six math_sqrt_def)

lemma catalog_entry_defined:
  assumes "m \<in> set (map fst getMaterials)" and "m \<noteq> ''?''"
  shows "\<exists>cs n. getitem getMaterials m = Inr (PySeq cs) \<and>
                 refraction_index_from_sellmeier 580 (PySeq cs) = Inr n"
  using catalog_names [OF assms]
proof (elim disjE)
  assume m: "m = ''Vacuum''"
  show ?thesis unfolding m by (rule entry_Vacuum)
next
  assume m: "m = ''Air''"
  show ?thesis unfolding m by (rule entry_Air)
next
  assume m: "m = ''Quartz''"
  show ?thesis unfolding m by (rule entry_Quartz)
next
  assume m: "m = ''PMMA (plexiglass)''"
  show ?thesis unfolding m by (rule entry_PMMA)
next
  assume m: "m = ''Window glass''"
  show ?thesis unfolding m by (rule entry_Window_glass)
next
  assume m: "m = ''Polycarbonate''"
  show ?thesis unfolding m by (rule entry_Polycarbonate)
qed

text \<open>
  Claim C9. Let \<open>m\<close> be a name of the table other than \<open>'?'\<close>. With the flag set, a
  \<open>Material\<close> notification on a feature object whose \<open>Material\<close> is \<open>m\<close> completes
  without an exception and with the flag set again; afterwards \<open>Sellmeier\<close> holds the
  coefficients the table stores for \<open>m\<close>, and \<open>RefractionIndex\<close> holds what the
  dispersion function returns for those coefficients at 580.
\<close>

theorem material_change_quiescent:
  assumes "m \<in> set (map fst getMaterials)" and "m \<noteq> ''?''"
    and "update self" and "Sellmeier fp = Some v" and "Material fp = m"
  shows "\<exists>cs n. getitem getMaterials m = Inr (PySeq cs) \<and>
                 refraction_index_from_sellmeier 580 (PySeq cs) = Inr n \<and>
                 onChanged self fp ''Material'' =
                   (None, self, fp\<lparr>Sellmeier := Some (PySeq cs), RefractionIndex := n\<rparr>)"
proof -
  obtain cs n where tab: "getitem getMaterials m = Inr (PySeq cs)"
    and idx: "refraction_index_from_sellmeier 580 (PySeq cs) = Inr n"
    using catalog_entry_defined [OF assms(1,2)] by (elim exE conjE)
  have "onChanged self fp ''Material'' =
          (None, self, fp\<lparr>Sellmeier := Some (PySeq cs), RefractionIndex := n\<rparr>)"
    using assms(3,4,5) tab idx by (simp add: onChanged_Material)
  with tab idx show ?thesis by (intro exI conjI)
qed

lemma getitem_Quartz:
  "getitem getMaterials ''Quartz'' =
     Inr (PySeq [0.6961663, 0.4079426, 0.8974794, 4679.14826, 13512.0631, 97934002.5])"
  by (simp add: getitem_def getMaterials_def)

lemma Quartz_in_table: "''Quartz'' \<in> set (map fst getMaterials)"
  by (simp add: getMaterials_def)

theorem material_change_quiescent_witness:
  "''Quartz'' \<in> set (map fst getMaterials) \<and> ''Quartz'' \<noteq> ''?'' \<and>
   update \<lparr>update = True\<rparr> \<and>
   (\<exists>n. refraction_index_from_sellmeier 580
           (PySeq [0.6961663, 0.4079426, 0.8974794, 4679.14826, 13512.0631, 97934002.5]) = Inr n \<and>
        onChanged \<lparr>update = True\<rparr>
          \<lparr>Material = ''Quartz'', Sellmeier = Some (PySeq []), RefractionIndex = 1\<rparr> ''Material''
        = (None, \<lparr>update = True\<rparr>,
           \<lparr>Material = ''Quartz'',
            Sellmeier = Some (PySeq [0.6961663, 0.4079426, 0.8974794,
                                     4679.14826, 13512.0631, 97934002.5]),
            RefractionIndex = n\<rparr>))"
proof -
  have ne: "''Quartz'' \<noteq> ''?''" by simp
  have up: "update \<lparr>update = True\<rparr>" by simp
  have sm: "Sellmeier \<lparr>Material = ''Quartz'', Sellmeier = Some (PySeq []), RefractionIndex = 1\<rparr>
              = Some (PySeq [])" by simp
  have mt: "Material \<lparr>Material = ''Quartz'', Sellmeier = Some (PySeq []), RefractionIndex = 1\<rparr>
              = ''Quartz''" by simp
  obtain cs n where tab: "getitem getMaterials ''Quartz'' = Inr (PySeq cs)"
    and idx: "refraction_index_from_sellmeier 580 (PySeq cs) = Inr n"
    and res: "onChanged \<lparr>update = True\<rparr>
          \<lparr>Material = ''Quartz'', Sellmeier = Some (PySeq []), RefractionIndex = 1\<rparr> ''Material''
        = (None, \<lparr>update = True\<rparr>,
           \<lparr>Material = ''Quartz'', Sellmeier = Some (PySeq []), RefractionIndex = 1\<rparr>
             \<lparr>Sellmeier := Some (PySeq cs), RefractionIndex := n\<rparr>)"
    using material_change_quiescent [OF Quartz_in_table ne up sm mt] by (elim exE conjE)
  from tab have cs: "cs = [0.6961663, 0.4079426, 0.8974794, 4679.14826, 13512.0631, 97934002.5]"
    unfolding getitem_Quartz by (simp only: sum.inject pyvalue.inject)
  show ?thesis
    using Quartz_in_table ne up idx res unfolding cs by (intro conjI exI[of _ n]) simp_all
qed

text \<open>
  Claim C10. If \<open>onChanged\<close> is called with the flag set on a feature object that has
  no attribute \<open>Sellmeier\<close>, it returns after clearing the flag and does not set it
  again. From then on every notification is ignored, whatever the host writes to the
  properties in between: the flag stays cleared and the feature object holds exactly
  what the host wrote.
\<close>

theorem missing_Sellmeier_locks_guard:
  assumes "update self" and "Sellmeier fp = None"
  shows "onChanged self fp prop = (None, self\<lparr>update := False\<rparr>, fp) \<and>
         notify_all (self\<lparr>update := False\<rparr>) fp es =
           (self\<lparr>update := False\<rparr>, fold (\<lambda>(w, prop). w) es fp)"
  using assms by (simp add: onChanged_no_Sellmeier notify_all_locked)

theorem missing_Sellmeier_locks_guard_witness:
  "update \<lparr>update = True\<rparr> \<and>
   Sellmeier \<lparr>Material = ''Quartz'', Sellmeier = None, RefractionIndex = 1\<rparr> = None \<and>
   onChanged \<lparr>update = True\<rparr>
     \<lparr>Material = ''Quartz'', Sellmeier = None, RefractionIndex = 1\<rparr> ''Material''
   = (None, \<lparr>update = False\<rparr>,
      \<lparr>Material = ''Quartz'', Sellmeier = None, RefractionIndex = 1\<rparr>) \<and>
   notify_all \<lparr>update = False\<rparr>
     \<lparr>Material = ''Quartz'', Sellmeier = None, RefractionIndex = 1\<rparr>
     [(\<lambda>fp. fp\<lparr>Sellmeier := Some (PySeq [0, 0, 0, 0, 0, 0])\<rparr>, ''Sellmeier''),
      (\<lambda>fp. fp\<lparr>RefractionIndex := 2\<rparr>, ''RefractionIndex'')]
   = (\<lparr>update = False\<rparr>,
      \<lparr>Material = ''Quartz'', Sellmeier = Some (PySeq [0, 0, 0, 0, 0, 0]), RefractionIndex = 2\<rparr>)"
  using missing_Sellmeier_locks_guard [of "\<lparr>update = True\<rparr>"
      "\<lparr>Material = ''Quartz'', Sellmeier = None, RefractionIndex = 1\<rparr>" "''Material''"
      "[(\<lambda>fp. fp\<lparr>Sellmeier := Some (PySeq [0, 0, 0, 0, 0, 0])\<rparr>, ''Sellmeier''),
        (\<lambda>fp. fp\<lparr>RefractionIndex := 2\<rparr>, ''RefractionIndex'')]"]
  by simp

text \<open>
  Claim C1. The claim is that a change of \<open>Material\<close> to \<open>'?'\<close> skips the lookup and
  the dispersion function and leaves \<open>RefractionIndex\<close> alone. The source has no such
  test. On the state a new lens is in when it is made without a material (flag set,
  \<open>Material\<close> \<open>'?'\<close>, \<open>Sellmeier\<close> empty, \<open>RefractionIndex\<close> 1) the \<open>Material\<close>
  notification looks the name up, stores the \<open>None\<close> it finds in \<open>Sellmeier\<close> and
  calls the dispersion function on it, whose unpacking raises \<open>TypeError\<close>. The call
  ends with that exception and with the flag cleared; \<open>RefractionIndex\<close> is still 1.
\<close>

theorem sentinel_material_change_raises:
  "onChanged \<lparr>update = True\<rparr>
     \<lparr>Material = ''?'', Sellmeier = Some (PySeq []), RefractionIndex = 1\<rparr> ''Material''
   = (Some TypeError, \<lparr>update = False\<rparr>,
      \<lparr>Material = ''?'', Sellmeier = Some PyNone, RefractionIndex = 1\<rparr>)"
  by (simp add: onChanged_Material_sentinel)

text \<open>
  Claim C2. The claim is that the flag is set again when the dispersion function raises
  during a propagation. The source sets the flag only in its last statement, which an
  exception skips. With \<open>c1 = 580\<^sup>2 = 336400\<close> in the stored coefficients, a \<open>Sellmeier\<close>
  notification ends with \<open>ZeroDivisionError\<close>, which reaches the caller, and with the
  flag cleared; the feature object is unchanged.
\<close>

theorem dispersion_error_leaves_guard_cleared:
  "onChanged \<lparr>update = True\<rparr>
     \<lparr>Material = ''Vacuum'', Sellmeier = Some (PySeq [1, 0, 0, 336400, 0, 0]), RefractionIndex = 1\<rparr>
     ''Sellmeier''
   = (Some ZeroDivisionError, \<lparr>update = False\<rparr>,
      \<lparr>Material = ''Vacuum'', Sellmeier = Some (PySeq [1, 0, 0, 336400, 0, 0]),
       RefractionIndex = 1\<rparr>)"
  by (simp add: onChanged_Sellmeier refraction_index_six)

end
